theory Spec2Isabelle
  imports
    Main
    "HOL-Library.Sublist"
    "HOL-Library.Char_ord"
    "HOL-Library.List_Lexorder"
    "HOL-Library.Multiset"
begin

section \<open>Python values and string operations used by route53.py\<close>

text \<open>
  The module parameters reach \<open>main\<close> as Python values: \<open>None\<close> when a parameter
  is omitted, an \<open>int\<close> (the defaults 3600 and 500, or a number given in YAML), a
  \<open>str\<close>, or a list of strings. HOL equality on \<open>pyval\<close> is Python's \<open>==\<close> on these
  values: an int never equals a str, and \<open>None\<close> equals only itself.
\<close>

datatype pyval = PyNone | PyInt int | PyStr string | PyList "string list"

text \<open>Python truthiness (\<open>if x\<close>, \<open>not x\<close>).\<close>

fun truthy :: "pyval \<Rightarrow> bool" where
  "truthy PyNone = False"
| "truthy (PyInt n) = (n \<noteq> 0)"
| "truthy (PyStr s) = (s \<noteq> [])"
| "truthy (PyList xs) = (xs \<noteq> [])"

fun truthy_opt :: "string option \<Rightarrow> bool" where
  "truthy_opt None = False"
| "truthy_opt (Some s) = (s \<noteq> [])"

text \<open>
  Exceptions that the modelled code can raise or let through. \<open>DNSServerError\<close> carries
  the \<open>body\<close> of the provider's response; \<open>OtherError\<close> stands for any exception class
  that no \<open>except\<close> clause of the module names.
\<close>

datatype exn = DNSServerError string | IndexError | ValueError | TypeError | OtherError string

text \<open>
  \<open>s.split(sep)\<close> for a non-empty separator: the pieces between the non-overlapping
  occurrences of \<open>sep\<close>, found from the left. Every separator in the module is a
  non-empty literal (Python raises on an empty one; here an empty separator is never
  found).
\<close>

function split :: "string \<Rightarrow> string \<Rightarrow> string list" where
  "split sep [] = [[]]"
| "split sep (c # cs) =
     (if sep \<noteq> [] \<and> prefix sep (c # cs)
      then [] # split sep (drop (length sep) (c # cs))
      else (case split sep cs of
              [] \<Rightarrow> [[c]]
            | piece # pieces \<Rightarrow> (c # piece) # pieces))"
  by pat_completeness auto
termination
  by (relation "measure (\<lambda>(sep, s). length s)") (auto simp: neq_Nil_conv)

text \<open>\<open>s.replace(old, new)\<close> for a non-empty \<open>old\<close>: every occurrence, from the left.\<close>

function replace :: "string \<Rightarrow> string \<Rightarrow> string \<Rightarrow> string" where
  "replace old new [] = []"
| "replace old new (c # cs) =
     (if old \<noteq> [] \<and> prefix old (c # cs)
      then new @ replace old new (drop (length old) (c # cs))
      else c # replace old new cs)"
  by pat_completeness auto
termination
  by (relation "measure (\<lambda>(old, new, s). length s)") (auto simp: neq_Nil_conv)

text \<open>\<open>sep.join(xs)\<close>.\<close>

fun join :: "string \<Rightarrow> string list \<Rightarrow> string" where
  "join sep [] = []"
| "join sep [x] = x"
| "join sep (x # y # ys) = x @ sep @ join sep (y # ys)"

text \<open>
  \<open>e.body.split(open)[1].split(close)[0]\<close>, the idiom of lines 186-187 and 301-302.
  The index \<open>[1]\<close> raises \<open>IndexError\<close> when \<open>open\<close> does not occur; the index \<open>[0]\<close>
  of a split always exists.
\<close>

definition between :: "string \<Rightarrow> string \<Rightarrow> string \<Rightarrow> exn + string" where
  "between opening closing body =
     (case split opening body of
        _ # code # _ \<Rightarrow>
          (case split closing code of
             [] \<Rightarrow> Inl IndexError
           | first # _ \<Rightarrow> Inr first)
      | _ \<Rightarrow> Inl IndexError)"

text \<open>
  \<open>int(x)\<close>: the identity on an int, a \<open>TypeError\<close> on \<open>None\<close> and on a list. On a str
  the builtin parses a decimal numeral; the parser is a parameter \<open>int_of_str\<close> of the
  model (\<open>None\<close> where the builtin raises \<open>ValueError\<close>).
\<close>

fun py_int :: "(string \<Rightarrow> int option) \<Rightarrow> pyval \<Rightarrow> exn + int" where
  "py_int int_of_str (PyInt n) = Inr n"
| "py_int int_of_str (PyStr s) =
     (case int_of_str s of None \<Rightarrow> Inl ValueError | Some n \<Rightarrow> Inr n)"
| "py_int int_of_str PyNone = Inl TypeError"
| "py_int int_of_str (PyList xs) = Inl TypeError"

text \<open>
  A parser for the worlds of the examples below: a non-empty string of ASCII digits
  denotes its decimal value (on these strings Python's \<open>int\<close> agrees), anything else is
  refused.
\<close>

definition digit_of :: "char \<Rightarrow> nat option" where
  "digit_of c =
     (let n = (of_char c :: nat) in if 48 \<le> n \<and> n \<le> 57 then Some (n - 48) else None)"

fun digits_value :: "nat \<Rightarrow> string \<Rightarrow> nat option" where
  "digits_value acc [] = Some acc"
| "digits_value acc (c # cs) =
     (case digit_of c of None \<Rightarrow> None | Some d \<Rightarrow> digits_value (10 * acc + d) cs)"

definition decimal :: "string \<Rightarrow> int option" where
  "decimal s = (if s = [] then None else map_option int (digits_value 0 s))"

section \<open>The data of a run\<close>

text \<open>A record set as boto lists it (\<open>rset.name\<close>, \<open>rset.type\<close>, \<open>rset.ttl\<close>,
  \<open>rset.resource_records\<close>).\<close>

record rset =
  rset_name :: string
  rset_type :: string
  rset_ttl :: pyval
  resource_records :: "string list"

text \<open>A hosted zone of \<open>ListHostedZonesResponse\<close>: \<open>r53zone['Id']\<close>, \<open>r53zone['Name']\<close>.\<close>

record hosted_zone =
  hz_Id :: string
  hz_Name :: string

text \<open>The dict \<open>record\<close> of \<open>main\<close> once a record set has matched (lines 267-272).\<close>

record found =
  rec_zone :: string
  rec_type :: string
  rec_record :: string
  rec_ttl :: pyval
  rec_value :: string
  rec_values :: "string list"

text \<open>One entry of a change batch: \<open>changes.add_change(action, name, type, ttl)\<close>
  followed by \<open>change.add_value(v)\<close> for each value.\<close>

record change =
  action :: string
  ch_name :: string
  ch_type :: string
  ch_ttl :: pyval
  ch_values :: "string list"

text \<open>\<open>ResourceRecordSets(conn, hosted_zone_id)\<close> with the changes added so far.\<close>

record resource_record_sets =
  hosted_zone_id :: string
  change_list :: "change list"

text \<open>The parameters of the module, \<open>module.params\<close> (lines 194-215), and the region
  that \<open>get_ec2_creds\<close> returns. \<open>p_overwrite\<close> is \<open>None\<close> when the parameter is omitted.\<close>

record params =
  p_state :: string
  p_zone :: string
  p_vpc_id :: "string option"
  p_record :: "string option"
  p_ttl :: pyval
  p_type :: "string option"
  p_value :: pyval
  p_overwrite :: "bool option"
  p_retry_interval :: pyval
  p_region :: "string option"

text \<open>
  The provider and the runtime, as the run sees them: the hosted zones in listing order,
  the record sets listed for a zone id, what the \<open>k\<close>-th call of \<open>changes.commit()\<close>
  does (counting from 0), whether \<open>time.sleep(float(retry_interval))\<close> returns, the id
  of a zone that \<open>create_zone\<close> creates, and the builtin \<open>int\<close> on a str. The connection
  and the two listing calls are taken at their returned values.
\<close>

record world =
  hosted_zones :: "hosted_zone list"
  get_all_rrsets :: "string \<Rightarrow> rset list"
  changes_commit :: "resource_record_sets \<Rightarrow> nat \<Rightarrow> exn + unit"
  sleep :: "pyval \<Rightarrow> exn + unit"
  create_zone :: "string \<Rightarrow> (string \<times> string) option \<Rightarrow> string"
  int_of_str :: "string \<Rightarrow> int option"

text \<open>What a run does to the outside: each submission of a batch, each completed
  backoff sleep, and the two zone-level mutations.\<close>

datatype effect =
    Commit resource_record_sets
  | Sleep pyval
  | CreateZone string "(string \<times> string) option"
  | DeleteHostedZone string

text \<open>How a run ends: \<open>module.exit_json(changed=b)\<close>, \<open>exit_json(changed=False,
  set=record)\<close> (\<open>None\<close> is the empty dict), \<open>exit_json(changed=True, id=...)\<close>,
  \<open>module.fail_json(msg=...)\<close>, or an exception nobody catches.\<close>

datatype outcome =
    ExitJson bool
  | ExitJsonSet "found option"
  | ExitJsonId string
  | FailJson string
  | Raised exn

definition attempts :: "effect list \<Rightarrow> nat" where
  "attempts es = length (filter (\<lambda>e. case e of Commit _ \<Rightarrow> True | _ \<Rightarrow> False) es)"

definition sleeps :: "effect list \<Rightarrow> nat" where
  "sleeps es = length (filter (\<lambda>e. case e of Sleep _ \<Rightarrow> True | _ \<Rightarrow> False) es)"

section \<open>commit (lines 178-190)\<close>

text \<open>
  \<open>commit_from w changes retry_interval retry k\<close> is the \<open>while True\<close> loop entered with
  the counter \<open>retry\<close>, when \<open>changes.commit()\<close> has been called \<open>k\<close> times before. The
  loop body decrements \<open>retry\<close> first; the handler reads the text between \<open><Code>\<close> and
  \<open></Code>\<close> of the body and re-raises unless the code is \<open>PriorRequestNotComplete\<close> and
  the decremented counter is not negative. Only \<open>DNSServerError\<close> is caught.
\<close>

function commit_from ::
  "world \<Rightarrow> resource_record_sets \<Rightarrow> pyval \<Rightarrow> int \<Rightarrow> nat \<Rightarrow> (exn + unit) \<times> effect list" where
  "commit_from w changes retry_interval retry k =
     (case changes_commit w changes k of
        Inr u \<Rightarrow> (Inr u, [Commit changes])
      | Inl (DNSServerError body) \<Rightarrow>
          (case between ''<Code>'' ''</Code>'' body of
             Inl e \<Rightarrow> (Inl e, [Commit changes])
           | Inr code \<Rightarrow>
               if code \<noteq> ''PriorRequestNotComplete'' \<or> retry - 1 < 0
               then (Inl (DNSServerError body), [Commit changes])
               else (case sleep w retry_interval of
                       Inl e \<Rightarrow> (Inl e, [Commit changes])
                     | Inr _ \<Rightarrow>
                         (case commit_from w changes retry_interval (retry - 1) (Suc k) of
                            (r, es) \<Rightarrow> (r, Commit changes # Sleep retry_interval # es))))
      | Inl e \<Rightarrow> (Inl e, [Commit changes]))"
  by pat_completeness auto
termination
  by (relation "measure (\<lambda>(w, changes, retry_interval, retry, k). nat retry)") auto

declare commit_from.simps [simp del]

definition commit :: "world \<Rightarrow> resource_record_sets \<Rightarrow> pyval \<Rightarrow> (exn + unit) \<times> effect list" where
  "commit w changes retry_interval = commit_from w changes retry_interval 10 0"

section \<open>main (lines 192-329)\<close>

text \<open>Lines 219-220 and 248-249: append the trailing dot unless it is there.\<close>

definition add_dot :: "string \<Rightarrow> string" where
  "add_dot s = (if s = [] \<or> last s \<noteq> CHR ''.'' then s @ ''.'' else s)"

text \<open>Lines 229-233: the dict \<open>zones\<close>, filled in listing order.\<close>

fun zones_of :: "hosted_zone list \<Rightarrow> (string \<rightharpoonup> string) \<Rightarrow> (string \<rightharpoonup> string)" where
  "zones_of [] zones = zones"
| "zones_of (r53zone # rest) zones =
     zones_of rest (zones(hz_Name r53zone \<mapsto> replace ''/hostedzone/'' [] (hz_Id r53zone)))"

text \<open>Lines 240-246: \<open>value_list\<close> is the empty tuple, or a sorted list. The empty tuple
  is not equal to any list, the empty list included.\<close>

datatype value_list = EmptyTuple | SortedList "string list"

fun values_of :: "value_list \<Rightarrow> string list" where
  "values_of EmptyTuple = []"
| "values_of (SortedList vs) = vs"

fun normalize_values :: "pyval \<Rightarrow> value_list" where
  "normalize_values (PyStr value_in) =
     (if value_in \<noteq> [] then SortedList (sort (split '','' value_in)) else EmptyTuple)"
| "normalize_values (PyList value_in) = SortedList (sort value_in)"
| "normalize_values PyNone = EmptyTuple"
| "normalize_values (PyInt n) = EmptyTuple"

text \<open>Lines 262-263: the octal escapes of \<open>*\<close> and \<open>@\<close> (a backslash and three digits).\<close>

definition decode_name :: "string \<Rightarrow> string" where
  "decode_name raw =
     replace (CHR 0x5C # ''100'') ''@'' (replace (CHR 0x5C # ''052'') ''*'' raw)"

text \<open>Line 265.\<close>

definition is_match :: "string \<Rightarrow> string \<Rightarrow> rset \<Rightarrow> bool" where
  "is_match type_in record_in rset =
     (rset_type rset = type_in \<and> decode_name (rset_name rset) = record_in)"

text \<open>Lines 267-272.\<close>

definition found_of :: "string \<Rightarrow> rset \<Rightarrow> found" where
  "found_of zone_in rset =
     \<lparr>rec_zone = zone_in, rec_type = rset_type rset,
      rec_record = decode_name (rset_name rset), rec_ttl = rset_ttl rset,
      rec_value = join '','' (sort (resource_records rset)),
      rec_values = sort (resource_records rset)\<rparr>"

text \<open>Line 273, with Python's left-to-right \<open>and\<close>: \<open>int\<close> is applied to the listed TTL
  only when the value lists are equal, and may raise.\<close>

definition unchanged :: "world \<Rightarrow> value_list \<Rightarrow> pyval \<Rightarrow> string \<Rightarrow> rset \<Rightarrow> exn + bool" where
  "unchanged w value_list ttl_in state_in rset =
     (if value_list = SortedList (sort (resource_records rset))
      then (case py_int (int_of_str w) (rset_ttl rset) of
              Inl e \<Rightarrow> Inl e
            | Inr n \<Rightarrow> Inr (PyInt n = ttl_in \<and> state_in = ''present''))
      else Inr False)"

text \<open>
  Lines 259-274: the loop over the listed record sets. There is no \<open>break\<close>: every set
  that matches overwrites \<open>record\<close>. The variable \<open>found_record\<close> is set exactly where
  \<open>record\<close> is filled, so it is \<open>True\<close> exactly when \<open>record\<close> is not \<open>None\<close> here.
\<close>

fun find_record ::
  "world \<Rightarrow> string \<Rightarrow> string \<Rightarrow> string \<Rightarrow> value_list \<Rightarrow> pyval \<Rightarrow> string \<Rightarrow>
   found option \<Rightarrow> rset list \<Rightarrow> outcome + found option" where
  "find_record w zone_in type_in record_in value_list ttl_in state_in record [] = Inr record"
| "find_record w zone_in type_in record_in value_list ttl_in state_in record (rset # sets) =
     (if is_match type_in record_in rset
      then (case unchanged w value_list ttl_in state_in rset of
              Inl e \<Rightarrow> Inl (Raised e)
            | Inr True \<Rightarrow> Inl (ExitJson False)
            | Inr False \<Rightarrow>
                find_record w zone_in type_in record_in value_list ttl_in state_in
                  (Some (found_of zone_in rset)) sets)
      else find_record w zone_in type_in record_in value_list ttl_in state_in record sets)"

text \<open>Lines 282-296: the change batch, or the conflict failure of line 286.\<close>

definition build_changes ::
  "string \<Rightarrow> bool option \<Rightarrow> string \<Rightarrow> string \<Rightarrow> string \<Rightarrow> pyval \<Rightarrow> value_list \<Rightarrow>
   found option \<Rightarrow> outcome + resource_record_sets" where
  "build_changes state_in overwrite zone_id record_in type_in ttl_in value_list record =
     (case (case record of
              Some r \<Rightarrow>
                if state_in = ''present''
                then (if overwrite \<noteq> Some True
                      then Inl (FailJson
                        ''Record already exists with different value. Set 'overwrite' to replace it'')
                      else Inr [\<lparr>action = ''DELETE'', ch_name = record_in, ch_type = type_in,
                                 ch_ttl = rec_ttl r, ch_values = rec_values r\<rparr>])
                else Inr []
            | None \<Rightarrow> Inr []) of
        Inl out \<Rightarrow> Inl out
      | Inr deletion \<Rightarrow>
          Inr \<lparr>hosted_zone_id = zone_id,
               change_list = deletion @
                 (if state_in = ''present'' \<or> state_in = ''absent''
                  then [\<lparr>action = (if state_in = ''present'' then ''CREATE'' else ''DELETE''),
                         ch_name = record_in, ch_type = type_in, ch_ttl = ttl_in,
                         ch_values = values_of value_list\<rparr>]
                  else [])\<rparr>)"

text \<open>Lines 298-305: commit, and the report.\<close>

definition submit :: "world \<Rightarrow> resource_record_sets \<Rightarrow> pyval \<Rightarrow> outcome \<times> effect list" where
  "submit w changes retry_interval_in =
     (case commit w changes retry_interval_in of
        (Inr _, es) \<Rightarrow> (ExitJson True, es)
      | (Inl (DNSServerError body), es) \<Rightarrow>
          (case between ''<Message>'' ''</Message>'' body of
             Inl e \<Rightarrow> (Raised e, es)
           | Inr txt \<Rightarrow> (FailJson txt, es))
      | (Inl e, es) \<Rightarrow> (Raised e, es))"

text \<open>Lines 276-305: what follows the loop. \<open>record\<close> is what the loop left.\<close>

definition report_or_change ::
  "world \<Rightarrow> params \<Rightarrow> string \<Rightarrow> string \<Rightarrow> string \<Rightarrow> value_list \<Rightarrow> found option \<Rightarrow>
   outcome \<times> effect list" where
  "report_or_change w p zone_id record_in type_in value_list record =
     (if p_state p = ''list'' then (ExitJsonSet record, [])
      else if p_state p = ''absent'' \<and> record = None then (ExitJson False, [])
      else
        (case build_changes (p_state p) (p_overwrite p) zone_id record_in type_in (p_ttl p)
                value_list record of
           Inl out \<Rightarrow> (out, [])
         | Inr changes \<Rightarrow> submit w changes (p_retry_interval p)))"

text \<open>Lines 236-305: the operation on one record set; \<open>record_given\<close> is not empty.\<close>

definition record_operation ::
  "world \<Rightarrow> params \<Rightarrow> string \<Rightarrow> (string \<rightharpoonup> string) \<Rightarrow> string \<Rightarrow> outcome \<times> effect list" where
  "record_operation w p zone_in zones record_given =
     (case zones zone_in of
        None \<Rightarrow> (FailJson (''Zone '' @ zone_in @ '' does not exist in Route53''), [])
      | Some zone_id \<Rightarrow>
          (let value_list = normalize_values (p_value p);
               record_in = add_dot record_given;
               type_in = (case p_type p of None \<Rightarrow> [] | Some t \<Rightarrow> t)
           in if \<not> truthy_opt (p_type p)
              then (FailJson ''parameter 'type' required when 'record' is provided'', [])
              else if (p_state p = ''present'' \<or> p_state p = ''absent'') \<and> \<not> truthy (p_value p)
              then (FailJson
                ''parameter 'value' required for present/absent when 'record' is provided'', [])
              else
                (case find_record w zone_in type_in record_in value_list
                        (p_ttl p) (p_state p) None (get_all_rrsets w zone_id) of
                   Inl out \<Rightarrow> (out, [])
                 | Inr record \<Rightarrow>
                     report_or_change w p zone_id record_in type_in value_list record)))"

text \<open>Lines 306-329: the operation on the hosted zone itself.\<close>

definition zone_operation ::
  "world \<Rightarrow> params \<Rightarrow> string \<Rightarrow> (string \<rightharpoonup> string) \<Rightarrow> outcome \<times> effect list" where
  "zone_operation w p zone_in zones =
     (if p_state p = ''present''
      then (if zones zone_in \<noteq> None then (ExitJson False, [])
            else (case p_vpc_id p of
                    None \<Rightarrow>
                      (ExitJsonId (create_zone w zone_in None), [CreateZone zone_in None])
                  | Some vpc_in \<Rightarrow>
                      if vpc_in = []
                      then (ExitJsonId (create_zone w zone_in None), [CreateZone zone_in None])
                      else (case p_region p of
                              None \<Rightarrow>
                                (FailJson
                                  ''parameter 'region' required when 'vpc_in' is provided'', [])
                            | Some region \<Rightarrow>
                                if region = []
                                then (FailJson
                                  ''parameter 'region' required when 'vpc_in' is provided'', [])
                                else (ExitJsonId (create_zone w zone_in (Some (vpc_in, region))),
                                      [CreateZone zone_in (Some (vpc_in, region))]))))
      else if p_state p = ''absent''
      then (case zones zone_in of
              Some zone_id \<Rightarrow> (ExitJson True, [DeleteHostedZone zone_id])
            | None \<Rightarrow> (ExitJson False, []))
      else (FailJson (''Zone '' @ zone_in @ '' does not exist in Route53''), []))"

definition main :: "world \<Rightarrow> params \<Rightarrow> outcome \<times> effect list" where
  "main w p =
     (let zone_in = add_dot (p_zone p);
          zones = zones_of (hosted_zones w) Map.empty
      in (case p_record p of
            None \<Rightarrow> zone_operation w p zone_in zones
          | Some record_given \<Rightarrow>
              if record_given \<noteq> [] then record_operation w p zone_in zones record_given
              else zone_operation w p zone_in zones))"

section \<open>The transient error class, and worlds for the examples\<close>

text \<open>The condition of line 188, read positively: the error is a \<open>DNSServerError\<close> whose
  body carries the code \<open>PriorRequestNotComplete\<close>.\<close>

definition transient :: "exn \<Rightarrow> bool" where
  "transient e =
     (case e of
        DNSServerError body \<Rightarrow>
          between ''<Code>'' ''</Code>'' body = Inr ''PriorRequestNotComplete''
      | _ \<Rightarrow> False)"

definition transient_body :: string where
  "transient_body =
     ''<Error><Code>PriorRequestNotComplete</Code><Message>busy</Message></Error>''"

definition invalid_body :: string where
  "invalid_body =
     ''<Error><Code>InvalidChangeBatch</Code><Message>it already exists</Message></Error>''"

text \<open>A zone \<open>foo.com.\<close> with id \<open>Z1\<close> that lists the given record sets; every
  submission is answered by \<open>answer\<close>.\<close>

definition foo_world :: "rset list \<Rightarrow> (nat \<Rightarrow> exn + unit) \<Rightarrow> world" where
  "foo_world sets answer =
     \<lparr>hosted_zones = [\<lparr>hz_Id = ''/hostedzone/Z1'', hz_Name = ''foo.com.''\<rparr>],
      get_all_rrsets = (\<lambda>zone_id. if zone_id = ''Z1'' then sets else []),
      changes_commit = (\<lambda>changes. answer),
      sleep = (\<lambda>retry_interval. Inr ()),
      create_zone = (\<lambda>name vpc. ''/hostedzone/Z2''),
      int_of_str = decimal\<rparr>"

definition always_busy :: "nat \<Rightarrow> exn + unit" where
  "always_busy k = Inl (DNSServerError transient_body)"

definition always_invalid :: "nat \<Rightarrow> exn + unit" where
  "always_invalid k = Inl (DNSServerError invalid_body)"

definition always_accepted :: "nat \<Rightarrow> exn + unit" where
  "always_accepted k = Inr ()"

definition example_batch :: resource_record_sets where
  "example_batch =
     \<lparr>hosted_zone_id = ''Z1'',
      change_list = [\<lparr>action = ''CREATE'', ch_name = ''new.foo.com.'', ch_type = ''A'',
                      ch_ttl = PyInt 7200, ch_values = [''1.1.1.1'']\<rparr>]\<rparr>"

text \<open>Record sets and parameters for the examples: the set \<open>new.foo.com. A\<close> with TTL
  7200 and two addresses, a second set of the same name and type (as weighted or
  latency sets are listed), and a request for \<open>new.foo.com\<close> in the zone \<open>foo.com\<close>.\<close>

definition existing_a :: rset where
  "existing_a =
     \<lparr>rset_name = ''new.foo.com.'', rset_type = ''A'', rset_ttl = PyStr ''7200'',
      resource_records = [''2.2.2.2'', ''1.1.1.1'']\<rparr>"

definition second_a :: rset where
  "second_a =
     \<lparr>rset_name = ''new.foo.com.'', rset_type = ''A'', rset_ttl = PyStr ''300'',
      resource_records = [''9.9.9.9'']\<rparr>"

definition desired :: "string \<Rightarrow> pyval \<Rightarrow> pyval \<Rightarrow> bool option \<Rightarrow> params" where
  "desired state_in ttl_in value_in overwrite =
     \<lparr>p_state = state_in, p_zone = ''foo.com'', p_vpc_id = None,
      p_record = Some ''new.foo.com'', p_ttl = ttl_in, p_type = Some ''A'',
      p_value = value_in, p_overwrite = overwrite, p_retry_interval = PyInt 500,
      p_region = None\<rparr>"

text \<open>The checks of lines 235-253 pass: a record name is given, the zone resolves to
  \<open>zone_id\<close>, a type and a value are given; \<open>record_in\<close> is the record name with its
  trailing dot.\<close>

definition record_request :: "world \<Rightarrow> params \<Rightarrow> string \<Rightarrow> string \<Rightarrow> string \<Rightarrow> bool" where
  "record_request w p zone_id record_in type_in =
     ((case p_record p of
         None \<Rightarrow> False
       | Some record_given \<Rightarrow> record_given \<noteq> [] \<and> record_in = add_dot record_given)
      \<and> zones_of (hosted_zones w) Map.empty (add_dot (p_zone p)) = Some zone_id
      \<and> p_type p = Some type_in \<and> type_in \<noteq> []
      \<and> truthy (p_value p))"

text \<open>The values as the caller wrote them: the items of a list, the comma-separated
  pieces of a string.\<close>

fun supplied_values :: "pyval \<Rightarrow> string list" where
  "supplied_values (PyList vs) = vs"
| "supplied_values (PyStr s) = split '','' s"
| "supplied_values PyNone = []"
| "supplied_values (PyInt n) = []"

text \<open>A listing in which two hosted zones have the name \<open>foo.com.\<close>, as a public and
  a private zone of one name have.\<close>

definition duplicate_zones :: "hosted_zone list" where
  "duplicate_zones =
     [\<lparr>hz_Id = ''/hostedzone/ZPUBLIC'', hz_Name = ''foo.com.''\<rparr>,
      \<lparr>hz_Id = ''/hostedzone/ZPRIVATE'', hz_Name = ''foo.com.''\<rparr>,
      \<lparr>hz_Id = ''/hostedzone/ZBAR'', hz_Name = ''bar.com.''\<rparr>]"

section \<open>Auxiliary facts\<close>

lemma attempts_simps [simp]:
  "attempts [] = 0"
  "attempts (Commit c # es) = Suc (attempts es)"
  "attempts (Sleep i # es) = attempts es"
  by (simp_all add: attempts_def)

lemma sleeps_simps [simp]:
  "sleeps [] = 0"
  "sleeps (Commit c # es) = sleeps es"
  "sleeps (Sleep i # es) = Suc (sleeps es)"
  by (simp_all add: sleeps_def)

lemma between_Inl: "between opening closing body = Inl e \<Longrightarrow> e = IndexError"
  by (auto simp: between_def split: list.splits)

lemma transient_body_code: "transient (DNSServerError transient_body)"
  by code_simp

lemma invalid_body_Code: "between ''<Code>'' ''</Code>'' invalid_body = Inr ''InvalidChangeBatch''"
  by code_simp

lemma invalid_body_code: "\<not> transient (DNSServerError invalid_body)"
  by (simp add: transient_def invalid_body_Code)

text \<open>The loop entered with a counter \<open>retry \<ge> 0\<close> against a provider that is always
  busy: \<open>retry\<close> sleeps, \<open>retry + 1\<close> submissions, and the last answer is raised.\<close>

lemma commit_from_transient:
  assumes busy: "\<And>j. \<exists>e. changes_commit w changes j = Inl e \<and> transient e"
    and slept: "sleep w retry_interval = Inr ()"
  shows "0 \<le> retry \<Longrightarrow> nat retry = n \<Longrightarrow>
         fst (commit_from w changes retry_interval retry k) = changes_commit w changes (k + n)
       \<and> attempts (snd (commit_from w changes retry_interval retry k)) = Suc n
       \<and> sleeps (snd (commit_from w changes retry_interval retry k)) = n"
proof (induction n arbitrary: retry k)
  case 0
  then have r: "retry = 0" by simp
  obtain e where e: "changes_commit w changes k = Inl e" "transient e"
    using busy by blast
  then obtain body where b: "e = DNSServerError body"
    "between ''<Code>'' ''</Code>'' body = Inr ''PriorRequestNotComplete''"
    by (cases e) (auto simp: transient_def)
  have "commit_from w changes retry_interval retry k = (Inl e, [Commit changes])"
    by (subst commit_from.simps) (simp add: e b r)
  then show ?case
    by (simp add: e)
next
  case (Suc n)
  then have r: "0 \<le> retry - 1" "nat (retry - 1) = n" "\<not> retry - 1 < 0" by simp_all
  obtain e where e: "changes_commit w changes k = Inl e" "transient e"
    using busy by blast
  then obtain body where b: "e = DNSServerError body"
    "between ''<Code>'' ''</Code>'' body = Inr ''PriorRequestNotComplete''"
    by (cases e) (auto simp: transient_def)
  have step: "commit_from w changes retry_interval retry k =
      (case commit_from w changes retry_interval (retry - 1) (Suc k) of
         (r, es) \<Rightarrow> (r, Commit changes # Sleep retry_interval # es))"
    using r(3) by (subst commit_from.simps) (simp add: e b slept)
  from Suc.IH[OF r(1) r(2), of "Suc k"] show ?case
    by (auto simp: step split: prod.splits)
qed

lemma commit_from_not_transient:
  assumes "changes_commit w changes k = Inl e" and "\<not> transient e"
  shows "commit_from w changes retry_interval retry k = (Inl e, [Commit changes])
       \<or> commit_from w changes retry_interval retry k = (Inl IndexError, [Commit changes])"
  using assms
  by (subst (1 2) commit_from.simps)
    (auto simp: transient_def dest: between_Inl split: exn.splits sum.splits)

lemma find_record_differs:
  assumes "\<forall>rs \<in> set sets. is_match type_in record_in rs \<longrightarrow>
             unchanged w value_list ttl_in state_in rs = Inr False"
  shows "find_record w zone_in type_in record_in value_list ttl_in state_in r0 sets =
           Inr (case filter (is_match type_in record_in) sets of
                  [] \<Rightarrow> r0
                | m # ms \<Rightarrow> Some (found_of zone_in (last (m # ms))))"
  using assms
proof (induction sets arbitrary: r0)
  case Nil
  show ?case by simp
next
  case (Cons rset sets)
  then show ?case
    by (cases "filter (is_match type_in record_in) sets") (auto split: list.splits)
qed

lemma zones_of_lookup:
  "zones_of listing zones n =
     (case filter (\<lambda>z. hz_Name z = n) listing of
        [] \<Rightarrow> zones n
      | z # zs \<Rightarrow> Some (replace ''/hostedzone/'' [] (hz_Id (last (z # zs)))))"
proof (induction listing arbitrary: zones)
  case Nil
  show ?case by simp
next
  case (Cons r53zone rest)
  show ?case
    by (cases "filter (\<lambda>z. hz_Name z = n) rest") (auto simp: Cons.IH split: list.splits)
qed

lemma split_no_sep: "c \<notin> set v \<Longrightarrow> split [c] v = [v]"
  by (induction v) auto

lemma split_piece: "c \<notin> set v \<Longrightarrow> split [c] (v @ c # rest) = v # split [c] rest"
  by (induction v) auto

lemma split_join:
  "vs \<noteq> [] \<Longrightarrow> \<forall>v \<in> set vs. c \<notin> set v \<Longrightarrow> split [c] (join [c] vs) = vs"
proof (induction vs rule: induct_list012)
  case 1
  then show ?case by simp
next
  case (2 x)
  then show ?case by (simp add: split_no_sep)
next
  case (3 x y ys)
  then show ?case by (simp add: split_piece)
qed

lemma sort_perm: "mset xs = mset ys \<Longrightarrow> sort xs = sort (ys :: string list)"
  by (rule properties_for_sort) simp_all

lemma join_Nil_iff: "join [c] vs = [] \<longleftrightarrow> vs = [] \<or> vs = [[]]"
  by (induction vs rule: induct_list012) auto

lemma commit_from_first_effect:
  "\<exists>r es. commit_from w changes retry_interval retry k = (r, Commit changes # es)"
  by (subst commit_from.simps) (auto split: sum.splits exn.splits prod.splits)

lemma submit_first_effect:
  "\<exists>out es. submit w changes retry_interval = (out, Commit changes # es)"
proof -
  obtain r es where "commit w changes retry_interval = (r, Commit changes # es)"
    unfolding commit_def using commit_from_first_effect by blast
  then show ?thesis
    by (auto simp: submit_def split: sum.splits exn.splits)
qed

lemma filter_last_match:
  assumes "P x" and "\<forall>y \<in> set after. \<not> P y"
  shows "filter P (before @ x # after) = filter P before @ [x]"
  using assms by (simp add: filter_empty_conv)

lemma find_record_last:
  assumes "\<forall>rs \<in> set (before @ existing # after). is_match type_in record_in rs \<longrightarrow>
             unchanged w value_list ttl_in state_in rs = Inr False"
    and "is_match type_in record_in existing"
    and "\<forall>rs \<in> set after. \<not> is_match type_in record_in rs"
  shows "find_record w zone_in type_in record_in value_list ttl_in state_in r0
           (before @ existing # after) = Inr (Some (found_of zone_in existing))"
proof -
  have "filter (is_match type_in record_in) (before @ existing # after)
      = filter (is_match type_in record_in) before @ [existing]"
    by (rule filter_last_match[OF assms(2,3)])
  then show ?thesis
    by (cases "filter (is_match type_in record_in) before")
      (simp_all add: find_record_differs[OF assms(1)])
qed

lemma find_record_none:
  assumes "\<forall>rs \<in> set sets. \<not> is_match type_in record_in rs"
  shows "find_record w zone_in type_in record_in value_list ttl_in state_in r0 sets = Inr r0"
proof -
  have "filter (is_match type_in record_in) sets = []"
    using assms by (simp add: filter_empty_conv)
  moreover have "\<forall>rs \<in> set sets. is_match type_in record_in rs \<longrightarrow>
             unchanged w value_list ttl_in state_in rs = Inr False"
    using assms by blast
  ultimately show ?thesis
    by (simp add: find_record_differs)
qed

lemma find_record_some:
  assumes "\<forall>rs \<in> set sets. is_match type_in record_in rs \<longrightarrow>
             unchanged w value_list ttl_in state_in rs = Inr False"
    and "\<exists>rs \<in> set sets. is_match type_in record_in rs"
  shows "\<exists>r. find_record w zone_in type_in record_in value_list ttl_in state_in None sets
           = Inr (Some r)"
proof -
  have "filter (is_match type_in record_in) sets \<noteq> []"
    using assms(2) by (simp add: filter_empty_conv)
  then show ?thesis
    by (cases "filter (is_match type_in record_in) sets")
      (simp_all add: find_record_differs[OF assms(1)])
qed

text \<open>The exit of line 274 is taken at the first matching set that passes the test of
  line 273, when the matching sets before it fail the test.\<close>

lemma find_record_noop:
  assumes "\<forall>rs \<in> set before. is_match type_in record_in rs \<longrightarrow>
             unchanged w value_list ttl_in state_in rs = Inr False"
    and "is_match type_in record_in existing"
    and "unchanged w value_list ttl_in state_in existing = Inr True"
  shows "find_record w zone_in type_in record_in value_list ttl_in state_in r0
           (before @ existing # after) = Inl (ExitJson False)"
  using assms by (induction before arbitrary: r0) auto

lemma unchanged_not_present:
  "state_in \<noteq> ''present'' \<Longrightarrow> unchanged w value_list ttl_in state_in rset = Inr b \<Longrightarrow> \<not> b"
  by (auto simp: unchanged_def split: if_splits sum.splits)

text \<open>A run whose checks pass is the loop followed by lines 276-305.\<close>

lemma main_record_request:
  assumes "record_request w p zone_id record_in type_in"
  shows "main w p =
           (case find_record w (add_dot (p_zone p)) type_in record_in
                   (normalize_values (p_value p)) (p_ttl p) (p_state p) None
                   (get_all_rrsets w zone_id) of
              Inl out \<Rightarrow> (out, [])
            | Inr r \<Rightarrow>
                report_or_change w p zone_id record_in type_in
                  (normalize_values (p_value p)) r)"
  using assms
  by (auto simp: record_request_def main_def record_operation_def Let_def
      split: option.splits)

lemma main_overwrite_omitted:
  "main w (p\<lparr>p_overwrite := None\<rparr>) = main w (p\<lparr>p_overwrite := Some False\<rparr>)"
proof -
  have roc: "report_or_change w (p\<lparr>p_overwrite := None\<rparr>) zone_id record_in type_in
        value_list r
      = report_or_change w (p\<lparr>p_overwrite := Some False\<rparr>) zone_id record_in type_in
          value_list r" for zone_id record_in type_in value_list r
    by (cases r) (simp_all add: report_or_change_def build_changes_def)
  have rop: "record_operation w (p\<lparr>p_overwrite := None\<rparr>) zone_in zones record_given
      = record_operation w (p\<lparr>p_overwrite := Some False\<rparr>) zone_in zones record_given"
    for zone_in zones record_given
    by (auto simp: record_operation_def Let_def roc split: option.splits sum.splits)
  have zop: "zone_operation w (p\<lparr>p_overwrite := None\<rparr>) zone_in zones
      = zone_operation w (p\<lparr>p_overwrite := Some False\<rparr>) zone_in zones" for zone_in zones
    by (auto simp: zone_operation_def split: option.splits)
  show ?thesis
    by (auto simp: main_def Let_def rop zop split: option.splits)
qed

lemma conflict_without_overwrite:
  assumes "record_request w p zone_id record_in type_in"
    and "p_state p = ''present''"
    and "p_overwrite p \<noteq> Some True"
    and "\<exists>rs \<in> set (get_all_rrsets w zone_id). is_match type_in record_in rs"
    and "\<forall>rs \<in> set (get_all_rrsets w zone_id). is_match type_in record_in rs \<longrightarrow>
           unchanged w (normalize_values (p_value p)) (p_ttl p) ''present'' rs = Inr False"
  shows "main w p =
    (FailJson ''Record already exists with different value. Set 'overwrite' to replace it'',
     [])"
proof -
  obtain r where "find_record w (add_dot (p_zone p)) type_in record_in
      (normalize_values (p_value p)) (p_ttl p) (p_state p) None (get_all_rrsets w zone_id)
      = Inr (Some r)"
    using find_record_some[OF assms(5,4)] assms(2) by auto
  then show ?thesis
    using assms(2,3)
    by (simp add: main_record_request[OF assms(1)] report_or_change_def build_changes_def)
qed

section \<open>The retry loop\<close>

text \<open>
  C1, as amended. Against a provider whose every answer to \<open>changes.commit()\<close> is the
  transient \<open>PriorRequestNotComplete\<close> error, and with a backoff sleep that returns,
  \<open>commit\<close> re-raises the provider's error after exactly 11 submissions (the first one
  and 10 retries) and 10 sleeps; the error raised is the answer to the 11th submission.
\<close>

theorem commit_always_transient_eleven_attempts:
  assumes "\<forall>k. \<exists>e. changes_commit w changes k = Inl e \<and> transient e"
    and "sleep w retry_interval = Inr ()"
  shows "fst (commit w changes retry_interval) = changes_commit w changes 10
       \<and> attempts (snd (commit w changes retry_interval)) = 11
       \<and> sleeps (snd (commit w changes retry_interval)) = 10"
proof -
  have busy: "\<And>j. \<exists>e. changes_commit w changes j = Inl e \<and> transient e"
    using assms(1) by blast
  have "nat (10::int) = 10" by simp
  from commit_from_transient[OF busy assms(2) _ this, of 0] show ?thesis
    by (simp add: commit_def)
qed

theorem commit_always_transient_witness:
  "fst (commit (foo_world [] always_busy) example_batch (PyInt 500))
     = Inl (DNSServerError transient_body)
   \<and> attempts (snd (commit (foo_world [] always_busy) example_batch (PyInt 500))) = 11
   \<and> sleeps (snd (commit (foo_world [] always_busy) example_batch (PyInt 500))) = 10"
proof -
  have busy: "\<forall>k. \<exists>e. changes_commit (foo_world [] always_busy) example_batch k = Inl e
                        \<and> transient e"
    by (simp add: foo_world_def always_busy_def transient_body_code)
  have slept: "sleep (foo_world [] always_busy) (PyInt 500) = Inr ()"
    by (simp add: foo_world_def)
  have last: "changes_commit (foo_world [] always_busy) example_batch 10
      = Inl (DNSServerError transient_body)"
    by (simp add: foo_world_def always_busy_def)
  from commit_always_transient_eleven_attempts[OF busy slept] show ?thesis
    by (simp add: last)
qed

text \<open>
  C1, as stated, fails: the always-busy provider is asked 11 times, not 10, before
  \<open>commit\<close> gives up.
\<close>

theorem commit_always_transient_not_ten:
  "fst (commit (foo_world [] always_busy) example_batch (PyInt 500))
     = Inl (DNSServerError transient_body)
   \<and> attempts (snd (commit (foo_world [] always_busy) example_batch (PyInt 500))) = 11
   \<and> attempts (snd (commit (foo_world [] always_busy) example_batch (PyInt 500))) \<noteq> 10"
proof -
  have busy: "\<And>j. \<exists>e. changes_commit (foo_world [] always_busy) example_batch j = Inl e
                        \<and> transient e"
    by (simp add: foo_world_def always_busy_def transient_body_code)
  have slept: "sleep (foo_world [] always_busy) (PyInt 500) = Inr ()"
    by (simp add: foo_world_def)
  have last: "changes_commit (foo_world [] always_busy) example_batch 10
      = Inl (DNSServerError transient_body)"
    by (simp add: foo_world_def always_busy_def)
  have "nat (10::int) = 10" by simp
  from commit_from_transient[OF busy slept _ this, of 0] show ?thesis
    unfolding commit_def by (simp add: last)
qed

text \<open>
  C4. When a submission raises anything but the transient error (a \<open>DNSServerError\<close>
  with another code or with no code at all, or another exception class), the loop
  ends at that submission with an exception and without a sleep: it raises the error
  itself, or the \<open>IndexError\<close> of line 186 when the body has no \<open><Code>\<close>. This holds at
  every submission and for every value of the counter, so only the transient error is
  ever retried; for the first submission it says that \<open>commit\<close> makes one attempt and
  never sleeps.
\<close>

theorem commit_non_transient_not_retried:
  assumes "changes_commit w changes k = Inl e" and "\<not> transient e"
  shows "(commit_from w changes retry_interval retry k = (Inl e, [Commit changes])
          \<or> commit_from w changes retry_interval retry k = (Inl IndexError, [Commit changes]))
       \<and> (k = 0 \<longrightarrow>
            (fst (commit w changes retry_interval) = Inl e
             \<or> fst (commit w changes retry_interval) = Inl IndexError)
            \<and> attempts (snd (commit w changes retry_interval)) = 1
            \<and> sleeps (snd (commit w changes retry_interval)) = 0)"
proof -
  have any: "commit_from w changes retry_interval r k = (Inl e, [Commit changes])
      \<or> commit_from w changes retry_interval r k = (Inl IndexError, [Commit changes])" for r
    by (rule commit_from_not_transient[OF assms])
  from any[of retry] any[of 10] show ?thesis
    by (auto simp: commit_def)
qed

theorem commit_non_transient_witness:
  "changes_commit (foo_world [] always_invalid) example_batch 0
     = Inl (DNSServerError invalid_body)
   \<and> \<not> transient (DNSServerError invalid_body)
   \<and> commit (foo_world [] always_invalid) example_batch (PyInt 500)
     = (Inl (DNSServerError invalid_body), [Commit example_batch])"
proof -
  have first: "changes_commit (foo_world [] always_invalid) example_batch 0
      = Inl (DNSServerError invalid_body)"
    by (simp add: foo_world_def always_invalid_def)
  from commit_non_transient_not_retried[OF first invalid_body_code, of "PyInt 500" 10]
  have "fst (commit (foo_world [] always_invalid) example_batch (PyInt 500))
          = Inl (DNSServerError invalid_body)
      \<or> fst (commit (foo_world [] always_invalid) example_batch (PyInt 500)) = Inl IndexError"
    and "commit_from (foo_world [] always_invalid) example_batch (PyInt 500) 10 0
          = (Inl (DNSServerError invalid_body), [Commit example_batch])
      \<or> commit_from (foo_world [] always_invalid) example_batch (PyInt 500) 10 0
          = (Inl IndexError, [Commit example_batch])"
    by simp_all
  moreover have "fst (commit (foo_world [] always_invalid) example_batch (PyInt 500))
      \<noteq> Inl IndexError"
    unfolding commit_def
    by (subst commit_from.simps) (simp add: first invalid_body_Code)
  ultimately show ?thesis
    using first invalid_body_code unfolding commit_def by auto
qed

section \<open>Zone resolution\<close>

text \<open>
  C9. The dict \<open>zones\<close> built from the hosted-zone listing maps a name to the id (with
  the prefix \<open>/hostedzone/\<close> removed) of the last zone of that name in listing order:
  if the listing is \<open>before @ z # after\<close> and no zone of \<open>after\<close> has the name of \<open>z\<close>,
  the entry for that name is the id of \<open>z\<close>, whatever zones of the same name stand in
  \<open>before\<close>. That id is the one the run acts on: asked to remove the zone of that
  name, \<open>main\<close> deletes the hosted zone with the id of \<open>z\<close>.
\<close>

theorem zones_keeps_last_listed_id:
  assumes "\<forall>z' \<in> set after. hz_Name z' \<noteq> hz_Name z"
  shows "zones_of (before @ z # after) Map.empty (hz_Name z)
           = Some (replace ''/hostedzone/'' [] (hz_Id z))
       \<and> (hosted_zones w = before @ z # after \<and> add_dot (p_zone p) = hz_Name z
            \<and> p_record p = None \<and> p_state p = ''absent''
          \<longrightarrow> main w p
                = (ExitJson True, [DeleteHostedZone (replace ''/hostedzone/'' [] (hz_Id z))]))"
proof -
  have "filter (\<lambda>z'. hz_Name z' = hz_Name z) after = []"
    using assms by (simp add: filter_empty_conv)
  then have kept: "zones_of (before @ z # after) Map.empty (hz_Name z)
      = Some (replace ''/hostedzone/'' [] (hz_Id z))"
    by (cases "filter (\<lambda>z'. hz_Name z' = hz_Name z) before")
      (simp_all add: zones_of_lookup)
  then show ?thesis
    by (simp add: main_def zone_operation_def Let_def)
qed

theorem zones_keeps_last_listed_id_witness:
  "zones_of duplicate_zones Map.empty ''foo.com.'' = Some ''ZPRIVATE''
   \<and> main ((foo_world [] always_accepted)\<lparr>hosted_zones := duplicate_zones\<rparr>)
        ((desired ''absent'' (PyInt 3600) PyNone None)\<lparr>p_record := None\<rparr>)
      = (ExitJson True, [DeleteHostedZone ''ZPRIVATE''])"
proof -
  let ?z = "\<lparr>hz_Id = ''/hostedzone/ZPRIVATE'', hz_Name = ''foo.com.''\<rparr>"
  have later: "\<forall>z' \<in> set [\<lparr>hz_Id = ''/hostedzone/ZBAR'', hz_Name = ''bar.com.''\<rparr>].
      hz_Name z' \<noteq> hz_Name ?z"
    by simp
  have listing: "duplicate_zones
      = [\<lparr>hz_Id = ''/hostedzone/ZPUBLIC'', hz_Name = ''foo.com.''\<rparr>] @ ?z
          # [\<lparr>hz_Id = ''/hostedzone/ZBAR'', hz_Name = ''bar.com.''\<rparr>]"
    by (simp add: duplicate_zones_def)
  have id: "replace ''/hostedzone/'' [] (hz_Id ?z) = ''ZPRIVATE''"
    by simp
  from zones_keeps_last_listed_id[OF later,
      of "[\<lparr>hz_Id = ''/hostedzone/ZPUBLIC'', hz_Name = ''foo.com.''\<rparr>]"
         "(foo_world [] always_accepted)\<lparr>hosted_zones := duplicate_zones\<rparr>"
         "(desired ''absent'' (PyInt 3600) PyNone None)\<lparr>p_record := None\<rparr>"]
  show ?thesis
    unfolding id listing[symmetric] by (simp add: listing desired_def add_dot_def)
qed

section \<open>The decision for a record that exists\<close>

text \<open>
  C2, evaluated. The zone lists \<open>new.foo.com. A\<close> with TTL 7200 and the addresses
  2.2.2.2 and 1.1.1.1. Asked for the same record with the TTL given as the string
  \<open>"7200"\<close> (as in the module's own examples), the run does not end as a no-op: line
  273 compares the int 7200 with the str \<open>"7200"\<close>, which are never equal, and the run
  fails with the conflict message. Asked with the int 7200 it ends with
  \<open>changed=False\<close>.
\<close>

theorem present_same_record_string_ttl:
  "main (foo_world [existing_a] always_accepted)
      (desired ''present'' (PyStr ''7200'') (PyStr ''1.1.1.1,2.2.2.2'') None)
     = (FailJson ''Record already exists with different value. Set 'overwrite' to replace it'',
        [])
   \<and> main (foo_world [existing_a] always_accepted)
      (desired ''present'' (PyInt 7200) (PyStr ''1.1.1.1,2.2.2.2'') None)
     = (ExitJson False, [])"
  by code_simp

text \<open>
  When the desired TTL is an int: if a listed set matches the name and type, its
  sorted values equal the normalized desired values and \<open>int\<close> of its TTL is the
  desired TTL, and the matching sets listed before it pass line 273 as different,
  then the run ends with \<open>changed=False\<close> and without any effect.
\<close>

theorem present_unchanged_int_ttl_noop:
  assumes "record_request w p zone_id record_in type_in"
    and "p_state p = ''present''"
    and "p_ttl p = PyInt ttl"
    and "get_all_rrsets w zone_id = before @ existing # after"
    and "is_match type_in record_in existing"
    and "normalize_values (p_value p) = SortedList (sort (resource_records existing))"
    and "py_int (int_of_str w) (rset_ttl existing) = Inr ttl"
    and "\<forall>rs \<in> set before. is_match type_in record_in rs \<longrightarrow>
           unchanged w (normalize_values (p_value p)) (p_ttl p) ''present'' rs = Inr False"
  shows "main w p = (ExitJson False, [])"
proof -
  have "unchanged w (normalize_values (p_value p)) (p_ttl p) (p_state p) existing = Inr True"
    using assms(2,3,6,7) by (simp add: unchanged_def)
  with assms(2,4,5,8) show ?thesis
    by (simp add: main_record_request[OF assms(1)] find_record_noop)
qed

theorem present_unchanged_int_ttl_noop_witness:
  "main (foo_world [existing_a] always_accepted)
      (desired ''present'' (PyInt 7200) (PyList [''1.1.1.1'', ''2.2.2.2'']) (Some True))
     = (ExitJson False, [])"
proof (rule present_unchanged_int_ttl_noop
    [where zone_id = "''Z1''" and record_in = "''new.foo.com.''" and type_in = "''A''"
       and ttl = 7200 and before = "[]" and existing = existing_a and after = "[]"])
  show "record_request (foo_world [existing_a] always_accepted)
      (desired ''present'' (PyInt 7200) (PyList [''1.1.1.1'', ''2.2.2.2'']) (Some True))
      ''Z1'' ''new.foo.com.'' ''A''"
    by code_simp
  show "is_match ''A'' ''new.foo.com.'' existing_a"
    by code_simp
  show "normalize_values
      (p_value (desired ''present'' (PyInt 7200) (PyList [''1.1.1.1'', ''2.2.2.2'']) (Some True)))
      = SortedList (sort (resource_records existing_a))"
    by code_simp
  show "py_int (int_of_str (foo_world [existing_a] always_accepted)) (rset_ttl existing_a)
      = Inr 7200"
    by code_simp
qed (simp_all add: desired_def foo_world_def)

text \<open>
  C5. The checks pass, the state is \<open>present\<close>, \<open>overwrite\<close> is false, some listed set
  matches the name and type, and every matching set differs (line 273 evaluates to
  false for it): the run fails with the message \<open>Record already exists with different
  value. Set 'overwrite' to replace it\<close> and has no effect: nothing is submitted.
\<close>

theorem present_differs_overwrite_false_conflict:
  assumes "record_request w p zone_id record_in type_in"
    and "p_state p = ''present''"
    and "p_overwrite p = Some False"
    and "\<exists>rs \<in> set (get_all_rrsets w zone_id). is_match type_in record_in rs"
    and "\<forall>rs \<in> set (get_all_rrsets w zone_id). is_match type_in record_in rs \<longrightarrow>
           unchanged w (normalize_values (p_value p)) (p_ttl p) ''present'' rs = Inr False"
  shows "main w p =
    (FailJson ''Record already exists with different value. Set 'overwrite' to replace it'',
     [])"
  using assms by (intro conflict_without_overwrite) simp_all

theorem present_differs_overwrite_false_witness:
  "main (foo_world [existing_a] always_accepted)
      (desired ''present'' (PyInt 7200) (PyStr ''3.3.3.3'') (Some False))
     = (FailJson ''Record already exists with different value. Set 'overwrite' to replace it'',
        [])"
proof (rule present_differs_overwrite_false_conflict
    [where zone_id = "''Z1''" and record_in = "''new.foo.com.''" and type_in = "''A''"])
  show "record_request (foo_world [existing_a] always_accepted)
      (desired ''present'' (PyInt 7200) (PyStr ''3.3.3.3'') (Some False))
      ''Z1'' ''new.foo.com.'' ''A''"
    by code_simp
  show "\<exists>rs \<in> set (get_all_rrsets (foo_world [existing_a] always_accepted) ''Z1'').
      is_match ''A'' ''new.foo.com.'' rs"
    by code_simp
  show "\<forall>rs \<in> set (get_all_rrsets (foo_world [existing_a] always_accepted) ''Z1'').
      is_match ''A'' ''new.foo.com.'' rs \<longrightarrow>
      unchanged (foo_world [existing_a] always_accepted)
        (normalize_values
          (p_value (desired ''present'' (PyInt 7200) (PyStr ''3.3.3.3'') (Some False))))
        (p_ttl (desired ''present'' (PyInt 7200) (PyStr ''3.3.3.3'') (Some False)))
        ''present'' rs = Inr False"
    by code_simp
qed (simp_all add: desired_def)

text \<open>
  C10. With \<open>overwrite\<close> omitted (\<open>None\<close>) the run is the run with \<open>overwrite=false\<close>,
  whatever the other parameters are; in particular a \<open>present\<close> request for a record
  whose listed sets differ fails with the conflict message and submits nothing.
\<close>

theorem overwrite_omitted_is_false:
  assumes "record_request w p zone_id record_in type_in"
    and "p_state p = ''present''"
    and "p_overwrite p = None"
    and "\<exists>rs \<in> set (get_all_rrsets w zone_id). is_match type_in record_in rs"
    and "\<forall>rs \<in> set (get_all_rrsets w zone_id). is_match type_in record_in rs \<longrightarrow>
           unchanged w (normalize_values (p_value p)) (p_ttl p) ''present'' rs = Inr False"
  shows "main w p = main w (p\<lparr>p_overwrite := Some False\<rparr>)
       \<and> main w p =
           (FailJson
              ''Record already exists with different value. Set 'overwrite' to replace it'',
            [])"
proof -
  have "p\<lparr>p_overwrite := None\<rparr> = p"
    using assms(3) by simp
  then have "main w p = main w (p\<lparr>p_overwrite := Some False\<rparr>)"
    using main_overwrite_omitted[of w p] by simp
  moreover have "main w p =
      (FailJson ''Record already exists with different value. Set 'overwrite' to replace it'',
       [])"
    using assms by (intro conflict_without_overwrite) simp_all
  ultimately show ?thesis by simp
qed

theorem overwrite_omitted_witness:
  "main (foo_world [existing_a] always_accepted)
      (desired ''present'' (PyInt 300) (PyStr ''1.1.1.1,2.2.2.2'') None)
     = main (foo_world [existing_a] always_accepted)
         ((desired ''present'' (PyInt 300) (PyStr ''1.1.1.1,2.2.2.2'') None)
            \<lparr>p_overwrite := Some False\<rparr>)
   \<and> main (foo_world [existing_a] always_accepted)
      (desired ''present'' (PyInt 300) (PyStr ''1.1.1.1,2.2.2.2'') None)
     = (FailJson ''Record already exists with different value. Set 'overwrite' to replace it'',
        [])"
proof (rule overwrite_omitted_is_false
    [where zone_id = "''Z1''" and record_in = "''new.foo.com.''" and type_in = "''A''"])
  show "record_request (foo_world [existing_a] always_accepted)
      (desired ''present'' (PyInt 300) (PyStr ''1.1.1.1,2.2.2.2'') None)
      ''Z1'' ''new.foo.com.'' ''A''"
    by code_simp
  show "\<exists>rs \<in> set (get_all_rrsets (foo_world [existing_a] always_accepted) ''Z1'').
      is_match ''A'' ''new.foo.com.'' rs"
    by code_simp
  show "\<forall>rs \<in> set (get_all_rrsets (foo_world [existing_a] always_accepted) ''Z1'').
      is_match ''A'' ''new.foo.com.'' rs \<longrightarrow>
      unchanged (foo_world [existing_a] always_accepted)
        (normalize_values
          (p_value (desired ''present'' (PyInt 300) (PyStr ''1.1.1.1,2.2.2.2'') None)))
        (p_ttl (desired ''present'' (PyInt 300) (PyStr ''1.1.1.1,2.2.2.2'') None))
        ''present'' rs = Inr False"
    by code_simp
qed (simp_all add: desired_def)

text \<open>
  C3. The checks pass, the state is \<open>present\<close>, \<open>overwrite\<close> is true, \<open>existing\<close> is the
  last listed set that matches the name and type, and every matching set differs
  (line 273 is false for it). Then the run submits one batch of exactly two entries:
  first a \<open>DELETE\<close> carrying the TTL of \<open>existing\<close> as listed and its values (sorted),
  then a \<open>CREATE\<close> carrying the desired TTL and the desired values.
\<close>

theorem present_differs_overwrite_replaces:
  assumes "record_request w p zone_id record_in type_in"
    and "p_state p = ''present''"
    and "p_overwrite p = Some True"
    and "get_all_rrsets w zone_id = before @ existing # after"
    and "is_match type_in record_in existing"
    and "\<forall>rs \<in> set after. \<not> is_match type_in record_in rs"
    and "\<forall>rs \<in> set (get_all_rrsets w zone_id). is_match type_in record_in rs \<longrightarrow>
           unchanged w (normalize_values (p_value p)) (p_ttl p) ''present'' rs = Inr False"
  defines "batch \<equiv>
      \<lparr>hosted_zone_id = zone_id,
       change_list =
         [\<lparr>action = ''DELETE'', ch_name = record_in, ch_type = type_in,
           ch_ttl = rset_ttl existing, ch_values = sort (resource_records existing)\<rparr>,
          \<lparr>action = ''CREATE'', ch_name = record_in, ch_type = type_in,
           ch_ttl = p_ttl p, ch_values = values_of (normalize_values (p_value p))\<rparr>]\<rparr>"
  shows "main w p = submit w batch (p_retry_interval p)
       \<and> (\<exists>out es. main w p = (out, Commit batch # es))"
proof -
  have "find_record w (add_dot (p_zone p)) type_in record_in (normalize_values (p_value p))
      (p_ttl p) (p_state p) None (get_all_rrsets w zone_id)
      = Inr (Some (found_of (add_dot (p_zone p)) existing))"
    using assms(2,5,6,7) unfolding assms(4) by (simp add: find_record_last)
  then have run: "main w p = submit w batch (p_retry_interval p)"
    using assms(2,3)
    by (simp add: main_record_request[OF assms(1)] report_or_change_def build_changes_def
        found_of_def batch_def)
  then show ?thesis
    using submit_first_effect[of w batch "p_retry_interval p"] by simp
qed

theorem present_differs_overwrite_replaces_witness:
  "main (foo_world [existing_a] always_accepted)
      (desired ''present'' (PyInt 300) (PyStr ''3.3.3.3'') (Some True))
     = (ExitJson True,
        [Commit
          \<lparr>hosted_zone_id = ''Z1'',
           change_list =
             [\<lparr>action = ''DELETE'', ch_name = ''new.foo.com.'', ch_type = ''A'',
               ch_ttl = PyStr ''7200'', ch_values = [''1.1.1.1'', ''2.2.2.2'']\<rparr>,
              \<lparr>action = ''CREATE'', ch_name = ''new.foo.com.'', ch_type = ''A'',
               ch_ttl = PyInt 300, ch_values = [''3.3.3.3'']\<rparr>]\<rparr>])"
proof -
  let ?w = "foo_world [existing_a] always_accepted"
  let ?p = "desired ''present'' (PyInt 300) (PyStr ''3.3.3.3'') (Some True)"
  have req: "record_request ?w ?p ''Z1'' ''new.foo.com.'' ''A''"
    by code_simp
  have st: "p_state ?p = ''present''" and ow: "p_overwrite ?p = Some True"
    by (simp_all add: desired_def)
  have sets: "get_all_rrsets ?w ''Z1'' = [] @ existing_a # []"
    by (simp add: foo_world_def)
  have m: "is_match ''A'' ''new.foo.com.'' existing_a"
    by code_simp
  have none: "\<forall>rs \<in> set []. \<not> is_match ''A'' ''new.foo.com.'' rs"
    by simp
  have differs: "\<forall>rs \<in> set (get_all_rrsets ?w ''Z1''). is_match ''A'' ''new.foo.com.'' rs \<longrightarrow>
      unchanged ?w (normalize_values (p_value ?p)) (p_ttl ?p) ''present'' rs = Inr False"
    by code_simp
  from present_differs_overwrite_replaces[OF req st ow sets m none differs]
  have "main ?w ?p = submit ?w
      \<lparr>hosted_zone_id = ''Z1'',
       change_list =
         [\<lparr>action = ''DELETE'', ch_name = ''new.foo.com.'', ch_type = ''A'',
           ch_ttl = rset_ttl existing_a, ch_values = sort (resource_records existing_a)\<rparr>,
          \<lparr>action = ''CREATE'', ch_name = ''new.foo.com.'', ch_type = ''A'',
           ch_ttl = p_ttl ?p, ch_values = values_of (normalize_values (p_value ?p))\<rparr>]\<rparr>
      (p_retry_interval ?p)"
    by (rule conjunct1)
  also have "\<dots> = (ExitJson True,
        [Commit
          \<lparr>hosted_zone_id = ''Z1'',
           change_list =
             [\<lparr>action = ''DELETE'', ch_name = ''new.foo.com.'', ch_type = ''A'',
               ch_ttl = PyStr ''7200'', ch_values = [''1.1.1.1'', ''2.2.2.2'']\<rparr>,
              \<lparr>action = ''CREATE'', ch_name = ''new.foo.com.'', ch_type = ''A'',
               ch_ttl = PyInt 300, ch_values = [''3.3.3.3'']\<rparr>]\<rparr>])"
    by code_simp
  finally show ?thesis .
qed

text \<open>
  C6. The checks pass, the state is \<open>absent\<close>, some listed set matches the name and
  type, and line 273 raises nothing. Then the run submits one batch of exactly one
  entry, a \<open>DELETE\<close> that carries the desired TTL as given and the desired values: the
  values the caller wrote, in sorted order. Nothing of the listed sets enters the
  batch.
\<close>

theorem absent_deletes_desired_values:
  assumes "record_request w p zone_id record_in type_in"
    and "p_state p = ''absent''"
    and "\<exists>rs \<in> set (get_all_rrsets w zone_id). is_match type_in record_in rs"
    and "\<forall>rs \<in> set (get_all_rrsets w zone_id). is_match type_in record_in rs \<longrightarrow>
           (\<exists>b. unchanged w (normalize_values (p_value p)) (p_ttl p) ''absent'' rs = Inr b)"
  defines "batch \<equiv>
      \<lparr>hosted_zone_id = zone_id,
       change_list =
         [\<lparr>action = ''DELETE'', ch_name = record_in, ch_type = type_in,
           ch_ttl = p_ttl p, ch_values = values_of (normalize_values (p_value p))\<rparr>]\<rparr>"
  shows "main w p = submit w batch (p_retry_interval p)
       \<and> (\<exists>out es. main w p = (out, Commit batch # es))
       \<and> values_of (normalize_values (p_value p)) = sort (supplied_values (p_value p))
       \<and> mset (values_of (normalize_values (p_value p))) = mset (supplied_values (p_value p))"
proof -
  have differs: "\<forall>rs \<in> set (get_all_rrsets w zone_id). is_match type_in record_in rs \<longrightarrow>
      unchanged w (normalize_values (p_value p)) (p_ttl p) ''absent'' rs = Inr False"
    using assms(4) unchanged_not_present[of "''absent''"] by fastforce
  obtain r where "find_record w (add_dot (p_zone p)) type_in record_in
      (normalize_values (p_value p)) (p_ttl p) (p_state p) None (get_all_rrsets w zone_id)
      = Inr (Some r)"
    using find_record_some[OF differs assms(3)] assms(2) by auto
  then have run: "main w p = submit w batch (p_retry_interval p)"
    using assms(2)
    by (simp add: main_record_request[OF assms(1)] report_or_change_def build_changes_def
        batch_def)
  have "truthy (p_value p)"
    using assms(1) by (simp add: record_request_def)
  then have vals: "values_of (normalize_values (p_value p)) = sort (supplied_values (p_value p))"
    by (cases "p_value p") simp_all
  show ?thesis
    using run vals submit_first_effect[of w batch "p_retry_interval p"] by simp
qed

theorem absent_deletes_desired_values_witness:
  "main (foo_world [existing_a] always_accepted)
      (desired ''absent'' (PyInt 3600) (PyStr ''3.3.3.3'') None)
     = (ExitJson True,
        [Commit
          \<lparr>hosted_zone_id = ''Z1'',
           change_list =
             [\<lparr>action = ''DELETE'', ch_name = ''new.foo.com.'', ch_type = ''A'',
               ch_ttl = PyInt 3600, ch_values = [''3.3.3.3'']\<rparr>]\<rparr>])"
proof -
  let ?w = "foo_world [existing_a] always_accepted"
  let ?p = "desired ''absent'' (PyInt 3600) (PyStr ''3.3.3.3'') None"
  have req: "record_request ?w ?p ''Z1'' ''new.foo.com.'' ''A''"
    by code_simp
  have st: "p_state ?p = ''absent''"
    by (simp add: desired_def)
  have m: "\<exists>rs \<in> set (get_all_rrsets ?w ''Z1''). is_match ''A'' ''new.foo.com.'' rs"
    by code_simp
  have "\<forall>rs \<in> set (get_all_rrsets ?w ''Z1''). is_match ''A'' ''new.foo.com.'' rs \<longrightarrow>
      unchanged ?w (normalize_values (p_value ?p)) (p_ttl ?p) ''absent'' rs = Inr False"
    by code_simp
  then have quiet: "\<forall>rs \<in> set (get_all_rrsets ?w ''Z1''). is_match ''A'' ''new.foo.com.'' rs \<longrightarrow>
      (\<exists>b. unchanged ?w (normalize_values (p_value ?p)) (p_ttl ?p) ''absent'' rs = Inr b)"
    by blast
  from absent_deletes_desired_values[OF req st m quiet]
  have "main ?w ?p = submit ?w
      \<lparr>hosted_zone_id = ''Z1'',
       change_list =
         [\<lparr>action = ''DELETE'', ch_name = ''new.foo.com.'', ch_type = ''A'',
           ch_ttl = p_ttl ?p, ch_values = values_of (normalize_values (p_value ?p))\<rparr>]\<rparr>
      (p_retry_interval ?p)"
    by (rule conjunct1)
  also have "\<dots> = (ExitJson True,
        [Commit
          \<lparr>hosted_zone_id = ''Z1'',
           change_list =
             [\<lparr>action = ''DELETE'', ch_name = ''new.foo.com.'', ch_type = ''A'',
               ch_ttl = PyInt 3600, ch_values = [''3.3.3.3'']\<rparr>]\<rparr>])"
    by code_simp
  finally show ?thesis .
qed

section \<open>The matcher\<close>

text \<open>
  C7, as amended. When no matching set ends the loop at line 273-274 (the test is
  false for every set that matches), the loop leaves in \<open>record\<close> the last listed set
  whose type and decoded name equal the desired pair, and leaves \<open>record\<close> empty when
  no listed set matches.
\<close>

theorem matcher_keeps_last_match:
  assumes "\<forall>rs \<in> set sets. is_match type_in record_in rs \<longrightarrow>
             unchanged w value_list ttl_in state_in rs = Inr False"
  shows "(sets = before @ rset # after \<and> is_match type_in record_in rset
            \<and> (\<forall>rs \<in> set after. \<not> is_match type_in record_in rs)
          \<longrightarrow> find_record w zone_in type_in record_in value_list ttl_in state_in None sets
                = Inr (Some (found_of zone_in rset)))
       \<and> ((\<forall>rs \<in> set sets. \<not> is_match type_in record_in rs)
          \<longrightarrow> find_record w zone_in type_in record_in value_list ttl_in state_in None sets
                = Inr None)"
  using assms find_record_last[of before rset after type_in record_in w value_list ttl_in state_in]
    find_record_none[of sets type_in record_in]
  by auto

theorem matcher_keeps_last_match_witness:
  "find_record (foo_world [existing_a, second_a] always_accepted) ''foo.com.'' ''A''
      ''new.foo.com.'' (SortedList [''3.3.3.3'']) (PyInt 300) ''present'' None
      [existing_a, second_a]
     = Inr (Some (found_of ''foo.com.'' second_a))"
proof -
  let ?w = "foo_world [existing_a, second_a] always_accepted"
  have differs: "\<forall>rs \<in> set [existing_a, second_a]. is_match ''A'' ''new.foo.com.'' rs \<longrightarrow>
      unchanged ?w (SortedList [''3.3.3.3'']) (PyInt 300) ''present'' rs = Inr False"
    by code_simp
  have m: "is_match ''A'' ''new.foo.com.'' second_a"
    by code_simp
  from matcher_keeps_last_match[OF differs, of "[existing_a]" second_a "[]" "''foo.com.''"] m
  show ?thesis
    by simp
qed

text \<open>
  C7, as stated, fails: of two listed sets with the desired name and type, the loop
  keeps the second, and a \<open>list\<close> request reports the second.
\<close>

theorem matcher_not_first_match:
  "is_match ''A'' ''new.foo.com.'' existing_a
   \<and> is_match ''A'' ''new.foo.com.'' second_a
   \<and> find_record (foo_world [existing_a, second_a] always_accepted) ''foo.com.'' ''A''
        ''new.foo.com.'' EmptyTuple (PyInt 3600) ''list'' None [existing_a, second_a]
      = Inr (Some (found_of ''foo.com.'' second_a))
   \<and> found_of ''foo.com.'' second_a \<noteq> found_of ''foo.com.'' existing_a
   \<and> main (foo_world [existing_a, second_a] always_accepted)
        (desired ''list'' (PyInt 3600) PyNone None)
      = (ExitJsonSet (Some (found_of ''foo.com.'' second_a)), [])"
  by code_simp

section \<open>Value normalization\<close>

text \<open>
  C8, as amended. For a non-empty list of values none of which contains a comma, other
  than the list of the one empty string: the values joined with commas into one string
  and the values given as a list in any order normalize to the same thing, the sorted
  list of the values.
\<close>

theorem normalize_values_order_independent:
  assumes "vs \<noteq> []" and "vs \<noteq> [[]]"
    and "\<forall>v \<in> set vs. CHR '','' \<notin> set v"
    and "mset vs' = mset vs"
  shows "normalize_values (PyStr (join '','' vs)) = normalize_values (PyList vs')
       \<and> normalize_values (PyList vs') = SortedList (sort vs)
       \<and> sorted (sort vs) \<and> mset (sort vs) = mset vs"
proof -
  have "join '','' vs \<noteq> []"
    using assms(1,2) by (simp add: join_Nil_iff)
  moreover have "split '','' (join '','' vs) = vs"
    using assms(1,3) by (rule split_join)
  moreover have "sort vs' = sort vs"
    using assms(4) by (rule sort_perm)
  ultimately show ?thesis
    by simp
qed

theorem normalize_values_order_independent_witness:
  "normalize_values (PyStr ''2.2.2.2,1.1.1.1'')
     = normalize_values (PyList [''1.1.1.1'', ''2.2.2.2''])
   \<and> normalize_values (PyList [''1.1.1.1'', ''2.2.2.2''])
     = SortedList [''1.1.1.1'', ''2.2.2.2'']"
proof -
  have commas: "\<forall>v \<in> set [''2.2.2.2'', ''1.1.1.1'']. CHR '','' \<notin> set v"
    by simp
  have perm: "mset [''1.1.1.1'', ''2.2.2.2''] = mset [''2.2.2.2'', ''1.1.1.1'']"
    by (simp add: add_mset_commute)
  have joined: "join '','' [''2.2.2.2'', ''1.1.1.1''] = ''2.2.2.2,1.1.1.1''"
    by simp
  have sorted: "sort [''2.2.2.2'', ''1.1.1.1''] = [''1.1.1.1'', ''2.2.2.2'']"
    by code_simp
  from normalize_values_order_independent[OF _ _ commas perm]
  show ?thesis
    unfolding joined sorted by simp
qed

text \<open>
  C8, as stated, fails: a value that contains a comma is cut at the comma when it comes
  in the string form, and nothing at all normalizes to the empty tuple in the string
  form but to the empty list in the list form, which Python does not hold equal.
\<close>

theorem normalize_values_comma_or_empty:
  "normalize_values (PyStr (join '','' [''v=spf1,a''])) \<noteq> normalize_values (PyList [''v=spf1,a''])
   \<and> normalize_values (PyStr (join '','' [])) \<noteq> normalize_values (PyList [])"
  by code_simp

end
